theory Spec2Isabelle
  imports Main
begin

section \<open>JavaScript string and array primitives\<close>

text \<open>
  The helper builds query text with template literals and a handful of methods of
  \<^verbatim>\<open>String.prototype\<close> and \<^verbatim>\<open>Array.prototype\<close>. Strings are modelled as
  \<^typ>\<open>string\<close>; \<^verbatim>\<open>undefined\<close> is \<^term>\<open>None\<close>.
\<close>

text \<open>\<^verbatim>\<open>s.split(sep)\<close> for a separator of one character: never the empty array.\<close>

fun split_chr :: "char \<Rightarrow> string \<Rightarrow> string list" where
  "split_chr sep [] = [[]]"
| "split_chr sep (c # cs) =
     (if c = sep then [] # split_chr sep cs
      else (case split_chr sep cs of
              [] \<Rightarrow> [[c]]
            | seg # segs \<Rightarrow> (c # seg) # segs))"

text \<open>\<^verbatim>\<open>s.replace(a, b)\<close> with a string pattern of one character: only the first
  occurrence is replaced.\<close>

fun replace_first :: "char \<Rightarrow> char \<Rightarrow> string \<Rightarrow> string" where
  "replace_first a b [] = []"
| "replace_first a b (c # cs) = (if c = a then b # cs else c # replace_first a b cs)"

text \<open>\<^verbatim>\<open>xs[i]\<close>: reading past the end gives \<^verbatim>\<open>undefined\<close>.\<close>

fun at_index :: "'a list \<Rightarrow> nat \<Rightarrow> 'a option" where
  "at_index [] i = None"
| "at_index (x # xs) 0 = Some x"
| "at_index (x # xs) (Suc i) = at_index xs i"

fun startsWith :: "string \<Rightarrow> string \<Rightarrow> bool" where
  "startsWith s [] = True"
| "startsWith [] (p # ps) = False"
| "startsWith (c # cs) (p # ps) = (c = p \<and> startsWith cs ps)"

text \<open>\<^verbatim>\<open>s.includes(pat)\<close>: \<open>pat\<close> occurs somewhere in \<open>s\<close>.\<close>

fun includes_str :: "string \<Rightarrow> string \<Rightarrow> bool" where
  "includes_str [] pat = (pat = [])"
| "includes_str (c # cs) pat = (startsWith (c # cs) pat \<or> includes_str cs pat)"

text \<open>\<^verbatim>\<open>xs.join(sep)\<close> on an array of strings.\<close>

fun join :: "string \<Rightarrow> string list \<Rightarrow> string" where
  "join sep [] = []"
| "join sep [x] = x"
| "join sep (x # y # ys) = x @ sep @ join sep (y # ys)"

text \<open>\<^verbatim>\<open>s.toLowerCase()\<close>, on the ASCII letters.\<close>

definition toLowerCase :: "string \<Rightarrow> string" where
  "toLowerCase s =
     map (\<lambda>c. if 65 \<le> (of_char c :: nat) \<and> (of_char c :: nat) \<le> 90
               then char_of ((of_char c :: nat) + 32) else c) s"

text \<open>A template literal renders \<^verbatim>\<open>undefined\<close> as the text \<^verbatim>\<open>undefined\<close>.\<close>

fun template :: "string option \<Rightarrow> string" where
  "template None = ''undefined''"
| "template (Some s) = s"

text \<open>An array index in a template literal: a natural number in decimal.\<close>

fun indexToString :: "nat \<Rightarrow> string" where
  "indexToString n =
     (if n < 10 then [''0123456789'' ! n]
      else indexToString (n div 10) @ [''0123456789'' ! (n mod 10)])"

declare indexToString.simps [simp del]

text \<open>An integer-valued number in a template literal (used to instantiate the
  number rendering, which the builders take as a parameter).\<close>

definition intToString :: "int \<Rightarrow> string" where
  "intToString i = (if i < 0 then ''-'' @ indexToString (nat (- i)) else indexToString (nat i))"

definition booleanToString :: "bool \<Rightarrow> string" where
  "booleanToString b = (if b then ''true'' else ''false'')"

definition squote :: string where
  "squote = [CHR 0x27]"

section \<open>Data model of the helper\<close>

text \<open>
  Modelled from the spec: the enums \<^verbatim>\<open>FilterCondition\<close> and \<^verbatim>\<open>SortOrder\<close> come from
  the package \<^verbatim>\<open>digicust_types\<close>, which is not part of the repository. The helper names
  the members \<^verbatim>\<open>equals\<close>, \<^verbatim>\<open>greaterThan\<close>, \<^verbatim>\<open>smallerThan\<close> and \<^verbatim>\<open>ASC\<close>, \<^verbatim>\<open>DESC\<close>; every
  other value that reaches the \<^verbatim>\<open>default\<close> branch of its switches is
  \<open>otherCondition\<close> or \<open>otherOrder\<close>.
\<close>

datatype FilterCondition = equals | greaterThan | smallerThan | otherCondition

datatype SortOrder = ASC | DESC | otherOrder

text \<open>The value of a filter: \<^verbatim>\<open>string | number | boolean\<close>, or \<^verbatim>\<open>undefined\<close>.\<close>

datatype 'n FilterValue = VString string | VNumber 'n | VBoolean bool | VUndefined

record 'n Filter =
  field :: string
  condition :: FilterCondition
  val :: "'n FilterValue"

record Sort =
  sort_field :: string
  order :: SortOrder

record SearchField =
  search_field :: string
  search_value :: string

section \<open>The clause builders of \<^verbatim>\<open>CosmosDbHelper\<close>\<close>

definition getFullSearchSql :: "string list \<Rightarrow> string list" where
  \<open>getFullSearchSql searches =
     map (\<lambda>search. ''AND LOWER(ToString(backend)) LIKE "%'' @ toLowerCase search @ ''%"'')
       (filter (\<lambda>search. search \<noteq> []) searches)\<close>

definition objectToString :: "string \<Rightarrow> string" where
  \<open>objectToString stringArr =
     foldl (\<lambda>result item. result @ (if item = ''value'' then ''["value"]'' else ''.'' @ item))
       [] (split_chr CHR ''.'' stringArr)\<close>

fun filterCondition :: "FilterCondition \<Rightarrow> string option" where
  "filterCondition equals = Some ''=''"
| "filterCondition greaterThan = Some ''>''"
| "filterCondition smallerThan = Some ''<''"
| "filterCondition otherCondition = None"

text \<open>\<^verbatim>\<open>`${filter.value}`\<close>; the rendering of a number is the parameter \<open>numberToString\<close>.\<close>

fun valueToString :: "('n \<Rightarrow> string) \<Rightarrow> 'n FilterValue \<Rightarrow> string" where
  "valueToString numberToString (VString s) = s"
| "valueToString numberToString (VNumber x) = numberToString x"
| "valueToString numberToString (VBoolean b) = booleanToString b"
| "valueToString numberToString VUndefined = ''undefined''"

fun isNumberOrBoolean :: "'n FilterValue \<Rightarrow> bool" where
  "isNumberOrBoolean (VNumber x) = True"
| "isNumberOrBoolean (VBoolean b) = True"
| "isNumberOrBoolean v = False"

text \<open>The constants \<^verbatim>\<open>replaced\<close>, \<^verbatim>\<open>first\<close> and \<^verbatim>\<open>second\<close> of the loop body of
  \<^verbatim>\<open>getFilterSql\<close>.\<close>

definition replaced :: "string \<Rightarrow> string" where
  "replaced fld = replace_first CHR ''.'' CHR '' '' fld"

definition first :: "string \<Rightarrow> string option" where
  "first fld = at_index (split_chr CHR '' '' (replaced fld)) 0"

definition second :: "string \<Rightarrow> string option" where
  "second fld = at_index (split_chr CHR '' '' (replaced fld)) 1"

text \<open>The body of the \<^verbatim>\<open>forEach\<close> callback of \<^verbatim>\<open>getFilterSql\<close>: the fragment pushed for
  the filter at position \<open>index\<close>.\<close>

definition filterFragment :: "('n \<Rightarrow> string) \<Rightarrow> nat \<Rightarrow> 'n Filter \<Rightarrow> string" where
  "filterFragment numberToString index fltr =
     (if first (field fltr) = Some ''documents'' \<or> first (field fltr) = Some ''submissions'' then
        ''JOIN (SELECT VALUE t'' @ indexToString index @ '' FROM t'' @ indexToString index
          @ '' IN backend.'' @ template (first (field fltr))
          @ '' WHERE t'' @ indexToString index @ ''.'' @ template (second (field fltr))
          @ '' = '' @ squote @ valueToString numberToString (val fltr) @ squote @ '')''
      else if val fltr = VUndefined then
        ''AND NOT IS_DEFINED(backend'' @ objectToString (field fltr) @ '')''
      else
        ''AND backend'' @ objectToString (field fltr) @ '' ''
          @ template (filterCondition (condition fltr)) @ '' ''
          @ (if isNumberOrBoolean (val fltr) then valueToString numberToString (val fltr)
             else squote @ valueToString numberToString (val fltr) @ squote))"

definition getFilterSql :: "('n \<Rightarrow> string) \<Rightarrow> 'n Filter list \<Rightarrow> string list" where
  "getFilterSql numberToString filters =
     map (\<lambda>(index, fltr). filterFragment numberToString index fltr) (enumerate 0 filters)"

text \<open>The body of the \<^verbatim>\<open>map\<close> callback of \<^verbatim>\<open>getSort\<close>.\<close>

fun sortFragment :: "nat \<Rightarrow> Sort \<Rightarrow> string" where
  "sortFragment index item =
     (case order item of
        ASC \<Rightarrow>
          (if index = 0 then ''ORDER BY backend.'' @ sort_field item @ '' ASC''
           else ''backend.'' @ sort_field item @ '' ASC'')
      | DESC \<Rightarrow>
          (if index = 0 then ''ORDER BY backend.'' @ sort_field item @ '' DESC''
           else ''backend.'' @ sort_field item @ '' DESC'')
      | otherOrder \<Rightarrow> [])"

definition getSort :: "Sort list \<Rightarrow> string list" where
  "getSort sortArr = map (\<lambda>(index, item). sortFragment index item) (enumerate 0 sortArr)"

definition getSearchQuery :: "SearchField list \<Rightarrow> string" where
  "getSearchQuery search =
     (if search = [] then []
      else foldl (\<lambda>result s. result @ ''AND LOWER(backend.'' @ search_field s @ '') LIKE ''
                    @ squote @ ''%'' @ toLowerCase (search_value s) @ ''%'' @ squote @ '' '')
             [] search)"

definition getPropertiesQuery :: "string list \<Rightarrow> string" where
  "getPropertiesQuery properties =
     (if properties = [] then ''*''
      else (let result = foldl (\<lambda>result p. result @ ''backend.'' @ p @ '', '') [] properties
            in take (length result - 2) result))"

text \<open>The object returned by \<^verbatim>\<open>getAllOptionsQuery\<close>.\<close>

record AllOptions =
  sorts :: string
  allProperties :: string
  filters :: string
  searchObjectQuery :: string
  searchFieldQuery :: string

definition getAllOptionsQuery ::
  "('n \<Rightarrow> string) \<Rightarrow> Sort list \<Rightarrow> 'n Filter list \<Rightarrow> string list \<Rightarrow> SearchField list
     \<Rightarrow> string list \<Rightarrow> AllOptions" where
  "getAllOptionsQuery numberToString sortArr fltr search searchFields properties =
     \<lparr> sorts = join '', '' (getSort sortArr),
       allProperties = getPropertiesQuery properties,
       filters = join '' '' (filter (\<lambda>item. includes_str item ''AND'')
                                (getFilterSql numberToString fltr)),
       searchObjectQuery = join '' '' (getFullSearchSql search),
       searchFieldQuery = getSearchQuery searchFields \<rparr>"

section \<open>The document store and \<^verbatim>\<open>CasesService\<close>\<close>

text \<open>
  The Cosmos client is an external collaborator. It is a pair of functions, one for
  \<^verbatim>\<open>container(id).items.query(spec, options).fetchAll()\<close> and one for \<^verbatim>\<open>fetchNext()\<close>,
  each either failing (a rejected promise) or answering. A document carries the attributes
  the service reads, absent ones being \<^term>\<open>None\<close>, and its remaining content.
\<close>

datatype error = StoreError string | TypeError

record ModuleEntry =
  type :: "string option"
  active :: "bool option"

record Document =
  content :: string
  modules :: "ModuleEntry list option"
  module :: "string option"

record SqlQuerySpec =
  query :: string
  parameters :: "(string \<times> string) list"

record FeedOptions =
  maxItemCount :: int
  opt_continuationToken :: string
  partitionKey :: string

record FeedResponse =
  resources :: "Document list"
  resp_hasMoreResults :: "bool option"
  resp_continuationToken :: "string option"

record Database =
  fetchAll :: "string \<Rightarrow> SqlQuerySpec \<Rightarrow> FeedOptions option \<Rightarrow> error + Document list"
  fetchNext :: "string \<Rightarrow> SqlQuerySpec \<Rightarrow> FeedOptions \<Rightarrow> error + FeedResponse"

definition queryContainer ::
  "Database \<Rightarrow> SqlQuerySpec \<Rightarrow> string \<Rightarrow> FeedOptions option \<Rightarrow> error + Document list" where
  "queryContainer db querySpec containerId opts = fetchAll db containerId querySpec opts"

definition queryContainerNext ::
  "Database \<Rightarrow> SqlQuerySpec \<Rightarrow> FeedOptions \<Rightarrow> string
     \<Rightarrow> error + (Document list \<times> bool option \<times> string option)" where
  "queryContainerNext db querySpec queryOptions containerId =
     (case fetchNext db containerId querySpec queryOptions of
        Inl e \<Rightarrow> Inl e
      | Inr r \<Rightarrow> Inr (resources r, resp_hasMoreResults r, resp_continuationToken r))"

text \<open>\<^verbatim>\<open>xs.indexOf(x)\<close>: the first position of \<open>x\<close>, or \<open>-1\<close>.\<close>

fun indexOf :: "'a list \<Rightarrow> 'a \<Rightarrow> int" where
  "indexOf [] x = - 1"
| "indexOf (y # ys) x =
     (if y = x then 0 else (if indexOf ys x = - 1 then - 1 else indexOf ys x + 1))"

text \<open>\<^verbatim>\<open>xs.filter(f)\<close> with a callback that may throw: the callback runs on each element
  in order, and on no element of an empty array.\<close>

fun filter_callback :: "('a \<Rightarrow> error + bool) \<Rightarrow> 'a list \<Rightarrow> error + 'a list" where
  "filter_callback f [] = Inr []"
| "filter_callback f (x # xs) =
     (case f x of
        Inl e \<Rightarrow> Inl e
      | Inr keep \<Rightarrow>
          (case filter_callback f xs of
             Inl e \<Rightarrow> Inl e
           | Inr rest \<Rightarrow> Inr (if keep then x # rest else rest)))"

text \<open>\<^verbatim>\<open>projectPermission?.[0]?.modules?.filter(...).map(...)\<close>: \<^verbatim>\<open>undefined\<close> when there
  is no first row or the row has no \<^verbatim>\<open>modules\<close>.\<close>

definition getModulePermission ::
  "Database \<Rightarrow> string \<Rightarrow> string \<Rightarrow> error + string option list option" where
  "getModulePermission db customerId projectId =
     (case queryContainer db
             \<lparr> query = ''SELECT backend.modules from backend WHERE backend.customerId = @customerId AND backend.projectId = @projectId'',
               parameters = [(''@customerId'', customerId), (''@projectId'', projectId)] \<rparr>
             ''Project'' None of
        Inl e \<Rightarrow> Inl e
      | Inr projectPermission \<Rightarrow>
          Inr (case at_index projectPermission 0 of
                 None \<Rightarrow> None
               | Some row \<Rightarrow>
                   (case modules row of
                      None \<Rightarrow> None
                    | Some ms \<Rightarrow> Some (map type (filter (\<lambda>it. active it = Some True) ms)))))"

record CaseList =
  result :: "Document list"
  options :: "string list"
  hasMoreResults :: bool
  continuationToken :: string

text \<open>
  \<^verbatim>\<open>getCaseList\<close>. The parameters \<open>contToken\<close> and \<open>pageLimit\<close> are \<^term>\<open>None\<close> when the
  caller leaves them out, and then take their defaults \<^verbatim>\<open>""\<close> and \<^verbatim>\<open>10\<close>; the five lists
  default to the empty list. The call of \<^verbatim>\<open>console.log\<close> is left out.
\<close>

definition getCaseList ::
  "Database \<Rightarrow> ('n \<Rightarrow> string) \<Rightarrow> string \<Rightarrow> string \<Rightarrow> string option \<Rightarrow> int option
     \<Rightarrow> Sort list \<Rightarrow> 'n Filter list \<Rightarrow> string list \<Rightarrow> SearchField list \<Rightarrow> string list
     \<Rightarrow> error + CaseList" where
  "getCaseList db numberToString customerId projectId contToken pageLimit
       sortArr fltr search searchFields properties =
     (case getModulePermission db customerId projectId of
        Inl e \<Rightarrow> Inl e
      | Inr resFilter \<Rightarrow>
          (let opts = getAllOptionsQuery numberToString sortArr fltr search searchFields properties
           in case queryContainerNext db
                     \<lparr> query = ''SELECT * FROM general WHERE general.customerId = @customerId AND general.projectId = @projectId ORDER BY general.createdAt'',
                       parameters = [(''@customerId'', customerId), (''@projectId'', projectId)] \<rparr>
                     \<lparr> maxItemCount = (case pageLimit of None \<Rightarrow> 10 | Some n \<Rightarrow> n),
                       opt_continuationToken = (case contToken of None \<Rightarrow> [] | Some t \<Rightarrow> t),
                       partitionKey = ''createdAt'' \<rparr>
                     ''testing'' of
                Inl e \<Rightarrow> Inl e
              | Inr (rows, hasMore, token) \<Rightarrow>
                  (case filter_callback
                          (\<lambda>it. case resFilter of
                                  None \<Rightarrow> Inl TypeError
                                | Some permitted \<Rightarrow> Inr (indexOf permitted (module it) \<noteq> - 1))
                          rows of
                     Inl e \<Rightarrow> Inl e
                   | Inr kept \<Rightarrow>
                       Inr \<lparr> result = kept,
                             options = [''Invoice'', ''Waybill'', ''Delivery Note'',
                                        ''Order Confirmation'', ''Packing List''],
                             hasMoreResults = (case hasMore of None \<Rightarrow> False | Some b \<Rightarrow> b),
                             continuationToken = (case token of None \<Rightarrow> [] | Some t \<Rightarrow> t) \<rparr>)))"

text \<open>The query, the feed options and the catalog of options that \<^verbatim>\<open>getCaseList\<close> writes
  as literals, named for the statements below.\<close>

abbreviation caseListQuery :: "string \<Rightarrow> string \<Rightarrow> SqlQuerySpec" where
  "caseListQuery customerId projectId \<equiv>
     \<lparr> query = ''SELECT * FROM general WHERE general.customerId = @customerId AND general.projectId = @projectId ORDER BY general.createdAt'',
       parameters = [(''@customerId'', customerId), (''@projectId'', projectId)] \<rparr>"

abbreviation caseListOptions :: "string option \<Rightarrow> int option \<Rightarrow> FeedOptions" where
  "caseListOptions contToken pageLimit \<equiv>
     \<lparr> maxItemCount = (case pageLimit of None \<Rightarrow> 10 | Some n \<Rightarrow> n),
       opt_continuationToken = (case contToken of None \<Rightarrow> [] | Some t \<Rightarrow> t),
       partitionKey = ''createdAt'' \<rparr>"

abbreviation caseOptions :: "string list" where
  "caseOptions \<equiv> [''Invoice'', ''Waybill'', ''Delivery Note'', ''Order Confirmation'', ''Packing List'']"

section \<open>Fake store collaborators\<close>

text \<open>A project container without a record for the key, and a content page of one case.\<close>

definition noRecordFetchAll ::
  "string \<Rightarrow> SqlQuerySpec \<Rightarrow> FeedOptions option \<Rightarrow> error + Document list" where
  "noRecordFetchAll containerId querySpec opts = Inr []"

definition onePageFetchNext ::
  "string \<Rightarrow> SqlQuerySpec \<Rightarrow> FeedOptions \<Rightarrow> error + FeedResponse" where
  "onePageFetchNext containerId querySpec opts =
     Inr \<lparr> resources = [\<lparr> content = ''case-1'', modules = None, module = Some ''Invoice'' \<rparr>],
           resp_hasMoreResults = None,
           resp_continuationToken = None \<rparr>"

definition noRecordDb :: Database where
  "noRecordDb = \<lparr> fetchAll = noRecordFetchAll, fetchNext = onePageFetchNext \<rparr>"

text \<open>A store with deterministic paging: a project record with one active module, and a
  second page that is answered only to the request for two items after the cursor
  \<^verbatim>\<open>page-1\<close>.\<close>

definition projectFetchAll ::
  "string \<Rightarrow> SqlQuerySpec \<Rightarrow> FeedOptions option \<Rightarrow> error + Document list" where
  "projectFetchAll containerId querySpec opts =
     Inr [\<lparr> content = ''project'',
            modules = Some [\<lparr> type = Some ''Invoice'', active = Some True \<rparr>,
                            \<lparr> type = Some ''Waybill'', active = Some False \<rparr>],
            module = None \<rparr>]"

definition pagedFetchNext ::
  "string \<Rightarrow> SqlQuerySpec \<Rightarrow> FeedOptions \<Rightarrow> error + FeedResponse" where
  "pagedFetchNext containerId querySpec opts =
     (if containerId = ''testing'' \<and> maxItemCount opts = 2
         \<and> opt_continuationToken opts = ''page-1''
      then Inr \<lparr> resources = [\<lparr> content = ''case-3'', modules = None, module = Some ''Invoice'' \<rparr>,
                               \<lparr> content = ''case-4'', modules = None, module = Some ''Waybill'' \<rparr>],
                  resp_hasMoreResults = Some True,
                  resp_continuationToken = Some ''page-2'' \<rparr>
      else Inl (StoreError ''unexpected request''))"

definition pagedDb :: Database where
  "pagedDb = \<lparr> fetchAll = projectFetchAll, fetchNext = pagedFetchNext \<rparr>"

definition secondPage :: CaseList where
  "secondPage =
     \<lparr> result = [\<lparr> content = ''case-3'', modules = None, module = Some ''Invoice'' \<rparr>],
       options = [''Invoice'', ''Waybill'', ''Delivery Note'', ''Order Confirmation'',
                  ''Packing List''],
       hasMoreResults = True,
       continuationToken = ''page-2'' \<rparr>"

text \<open>Filter and sort lists used as concrete inputs.\<close>

definition sampleFilters :: "int Filter list" where
  "sampleFilters =
     [\<lparr> field = ''documents.type'', condition = equals, val = VString ''invoice'' \<rparr>,
      \<lparr> field = ''a.value.b'', condition = greaterThan, val = VNumber (- 12) \<rparr>,
      \<lparr> field = ''status'', condition = otherCondition, val = VBoolean True \<rparr>,
      \<lparr> field = ''archivedAt'', condition = equals, val = VUndefined \<rparr>,
      \<lparr> field = ''submissions.meta.state'', condition = equals, val = VString ''open'' \<rparr>]"

definition sampleSort :: "Sort list" where
  "sampleSort =
     [\<lparr> sort_field = ''createdAt'', order = ASC \<rparr>,
      \<lparr> sort_field = ''status'', order = otherOrder \<rparr>,
      \<lparr> sort_field = ''reference'', order = DESC \<rparr>]"

section \<open>Properties of the primitives\<close>

lemma split_chr_not_Nil: "split_chr sep s \<noteq> []"
  by (induction s) (auto split: list.splits)

lemma join_Cons_head: "join sep ((c # seg) # segs) = c # join sep (seg # segs)"
  by (cases segs) auto

lemma join_Nil_head: "join sep ([] # seg # segs) = sep @ join sep (seg # segs)"
  by simp

text \<open>Splitting cuts the string at the separators and nowhere else: joining the segments
  with the separator gives the string back, and no segment holds a separator.\<close>

lemma join_split_chr: "join [sep] (split_chr sep s) = s"
proof (induction s)
  case Nil
  then show ?case by simp
next
  case (Cons c cs)
  then show ?case
    using split_chr_not_Nil [of sep cs]
    by (cases "split_chr sep cs") (auto simp: join_Cons_head join_Nil_head simp del: join.simps)
qed

lemma split_chr_no_sep: "seg \<in> set (split_chr sep s) \<Longrightarrow> sep \<notin> set seg"
  by (induction s arbitrary: seg) (auto split: if_splits list.splits)

lemma foldl_append_concat:
  "foldl (\<lambda>result item. result @ f item) acc xs = acc @ concat (map f xs)"
  by (induction xs arbitrary: acc) auto

lemma startsWith_iff: "startsWith s pat \<longleftrightarrow> (\<exists>b. s = pat @ b)"
  by (induction s pat rule: startsWith.induct) auto

lemma includes_str_iff: "includes_str s pat \<longleftrightarrow> (\<exists>a b. s = a @ pat @ b)"
proof (induction s)
  case Nil
  then show ?case by auto
next
  case (Cons c cs)
  show ?case
  proof
    assume "includes_str (c # cs) pat"
    then consider "startsWith (c # cs) pat" | "includes_str cs pat" by auto
    then show "\<exists>a b. c # cs = a @ pat @ b"
    proof cases
      case 1
      then obtain b where "c # cs = pat @ b" by (auto simp: startsWith_iff)
      then have "c # cs = [] @ pat @ b" by simp
      then show ?thesis by blast
    next
      case 2
      then obtain a b where "cs = a @ pat @ b" using Cons.IH by auto
      then have "c # cs = (c # a) @ pat @ b" by simp
      then show ?thesis by blast
    qed
  next
    assume "\<exists>a b. c # cs = a @ pat @ b"
    then obtain a b where ab: "c # cs = a @ pat @ b" by auto
    show "includes_str (c # cs) pat"
    proof (cases a)
      case Nil
      with ab have "startsWith (c # cs) pat" by (auto simp: startsWith_iff)
      then show ?thesis by simp
    next
      case (Cons a0 as)
      with ab have "cs = as @ pat @ b" by simp
      then have "includes_str cs pat" using Cons.IH by blast
      then show ?thesis by simp
    qed
  qed
qed

lemma indexOf_ge: "- 1 \<le> indexOf xs x"
  by (induction xs) auto

lemma indexOf_found: "indexOf xs x \<noteq> - 1 \<longleftrightarrow> x \<in> set xs"
proof (induction xs)
  case Nil
  then show ?case by simp
next
  case (Cons y ys)
  then show ?case using indexOf_ge [of ys x] by auto
qed

text \<open>What the loop body of \<^verbatim>\<open>getFilterSql\<close> calls \<^verbatim>\<open>first\<close> is the text of the field
  before its first dot or space, that is, the first segment of the dotted path cut at its
  first space.\<close>

lemma first_takeWhile:
  "first fld = Some (takeWhile (\<lambda>c. c \<noteq> CHR ''.'' \<and> c \<noteq> CHR '' '') fld)"
  unfolding first_def replaced_def
  by (induction fld) (auto split: list.splits)

lemma at_index_split_chr_0:
  "at_index (split_chr sep s) 0 = Some (takeWhile (\<lambda>c. c \<noteq> sep) s)"
  by (induction s) (auto split: list.splits)

lemma takeWhile_dot_or_space:
  "takeWhile (\<lambda>c. c \<noteq> CHR ''.'' \<and> c \<noteq> CHR '' '') fld =
     takeWhile (\<lambda>c. c \<noteq> CHR '' '') (takeWhile (\<lambda>c. c \<noteq> CHR ''.'') fld)"
  by (induction fld) auto

lemma split_chr_no_sep_id: "sep \<notin> set s \<Longrightarrow> split_chr sep s = [s]"
  by (induction s) auto

lemma split_chr_append:
  "sep \<notin> set a \<Longrightarrow> split_chr sep (a @ sep # b) = a # split_chr sep b"
  by (induction a) auto

lemma replaced_dotted:
  "CHR ''.'' \<notin> set a \<Longrightarrow> replaced (a @ CHR ''.'' # b) = a @ CHR '' '' # b"
  unfolding replaced_def by (induction a) auto

text \<open>On a path \<open>a.rest\<close> whose head \<open>a\<close> has neither a dot nor a space, \<^verbatim>\<open>first\<close> is \<open>a\<close>
  and \<^verbatim>\<open>second\<close> is the rest up to its first space, further dots included; on a path
  without dot and space there is no \<^verbatim>\<open>second\<close>.\<close>

lemma first_second_dotted:
  assumes "CHR ''.'' \<notin> set a" and "CHR '' '' \<notin> set a"
  shows "first (a @ CHR ''.'' # rest) = Some a
         \<and> second (a @ CHR ''.'' # rest) = Some (takeWhile (\<lambda>c. c \<noteq> CHR '' '') rest)"
  using assms
  by (simp add: first_def second_def replaced_dotted split_chr_append at_index_split_chr_0)

lemma second_single_segment:
  assumes "CHR ''.'' \<notin> set a" and "CHR '' '' \<notin> set a"
  shows "second a = None"
proof -
  have "replaced a = a"
    using assms(1) unfolding replaced_def by (induction a) auto
  then show ?thesis
    using assms(2) by (simp add: second_def split_chr_no_sep_id)
qed

lemma length_getFilterSql: "length (getFilterSql numberToString fs) = length fs"
  by (simp add: getFilterSql_def)

lemma nth_getFilterSql:
  "i < length fs \<Longrightarrow>
   getFilterSql numberToString fs ! i = filterFragment numberToString i (fs ! i)"
  by (simp add: getFilterSql_def nth_enumerate_eq)

lemma length_getSort: "length (getSort sortArr) = length sortArr"
  by (simp add: getSort_def)

lemma nth_getSort: "i < length sortArr \<Longrightarrow> getSort sortArr ! i = sortFragment i (sortArr ! i)"
  by (simp add: getSort_def nth_enumerate_eq)

lemma getFilterSql_sampleFilters:
  \<open>getFilterSql intToString sampleFilters =
     [''JOIN (SELECT VALUE t0 FROM t0 IN backend.documents WHERE t0.type = 'invoice')'',
      ''AND backend.a["value"].b > -12'',
      ''AND backend.status undefined true'',
      ''AND NOT IS_DEFINED(backend.archivedAt)'',
      ''JOIN (SELECT VALUE t4 FROM t4 IN backend.submissions WHERE t4.meta.state = 'open')'']\<close>
  by (simp add: sampleFilters_def getFilterSql_def filterFragment_def first_def second_def
      replaced_def enumerate_eq_zip squote_def objectToString_def booleanToString_def
      intToString_def indexToString.simps)

lemma list_of_length_3: "length xs = 3 \<Longrightarrow> xs = [xs ! 0, xs ! 1, xs ! 2]"
  by (auto simp: length_Suc_conv numeral_3_eq_3 eval_nat_numeral)

section \<open>Properties of the builders and of the service\<close>

text \<open>The three branches of the loop body of \<^verbatim>\<open>getFilterSql\<close>, in the order the code
  tests them.\<close>

lemma filterFragment_join:
  assumes "first (field f) = Some ''documents'' \<or> first (field f) = Some ''submissions''"
  shows "filterFragment numberToString i f =
           ''JOIN (SELECT VALUE t'' @ indexToString i @ '' FROM t'' @ indexToString i
             @ '' IN backend.'' @ template (first (field f))
             @ '' WHERE t'' @ indexToString i @ ''.'' @ template (second (field f))
             @ '' = '' @ squote @ valueToString numberToString (val f) @ squote @ '')''"
  using assms by (simp add: filterFragment_def)

lemma filterFragment_not_defined:
  assumes "first (field f) \<noteq> Some ''documents''" and "first (field f) \<noteq> Some ''submissions''"
    and "val f = VUndefined"
  shows "filterFragment numberToString i f =
           ''AND NOT IS_DEFINED(backend'' @ objectToString (field f) @ '')''"
  using assms by (simp add: filterFragment_def)

lemma filterFragment_where:
  assumes "first (field f) \<noteq> Some ''documents''" and "first (field f) \<noteq> Some ''submissions''"
    and "val f \<noteq> VUndefined"
  shows "filterFragment numberToString i f =
           ''AND backend'' @ objectToString (field f) @ '' ''
             @ template (filterCondition (condition f)) @ '' ''
             @ (case val f of
                  VNumber x \<Rightarrow> numberToString x
                | VBoolean b \<Rightarrow> (if b then ''true'' else ''false'')
                | VString s \<Rightarrow> squote @ s @ squote
                | VUndefined \<Rightarrow> squote @ ''undefined'' @ squote)"
  using assms by (cases "val f") (simp_all add: filterFragment_def booleanToString_def)

text \<open>The composer keeps a fragment exactly when the text \<^verbatim>\<open>AND\<close> occurs in it.\<close>

lemma filters_retains_substring:
  "filters (getAllOptionsQuery numberToString sortArr fs search searchFields properties) =
     join '' '' (filter (\<lambda>item. \<exists>a b. item = a @ ''AND'' @ b) (getFilterSql numberToString fs))"
  by (simp add: getAllOptionsQuery_def includes_str_iff)

text \<open>A callback that never throws filters as usual; one that always throws makes the
  filter of a non-empty array throw.\<close>

lemma filter_callback_total: "filter_callback (\<lambda>it. Inr (P it)) xs = Inr (filter P xs)"
  by (induction xs) auto

lemma filter_callback_throws:
  "xs \<noteq> [] \<Longrightarrow> filter_callback (\<lambda>it. Inl e) xs = Inl e"
  by (cases xs) auto

text \<open>What \<^verbatim>\<open>getCaseList\<close> returns once both store calls have answered: with a permission
  record the rows whose module is permitted; without one, an exception as soon as the page
  has a row.\<close>

lemma getModulePermission_no_record:
  "fetchAll db ''Project''
     \<lparr> query = ''SELECT backend.modules from backend WHERE backend.customerId = @customerId AND backend.projectId = @projectId'',
       parameters = [(''@customerId'', customerId), (''@projectId'', projectId)] \<rparr> None = Inr []
   \<Longrightarrow> getModulePermission db customerId projectId = Inr None"
  by (simp add: getModulePermission_def queryContainer_def)

lemma getCaseList_permitted:
  assumes "getModulePermission db customerId projectId = Inr (Some permitted)"
    and "fetchNext db ''testing'' (caseListQuery customerId projectId)
           (caseListOptions contToken pageLimit) = Inr r"
  shows "getCaseList db numberToString customerId projectId contToken pageLimit
           sortArr fltr search searchFields properties =
         Inr \<lparr> result = filter (\<lambda>it. module it \<in> set permitted) (resources r),
               options = caseOptions,
               hasMoreResults = (case resp_hasMoreResults r of None \<Rightarrow> False | Some b \<Rightarrow> b),
               continuationToken = (case resp_continuationToken r of None \<Rightarrow> [] | Some t \<Rightarrow> t) \<rparr>"
  using assms
  by (simp add: getCaseList_def Let_def queryContainerNext_def filter_callback_total indexOf_found)

lemma getCaseList_no_active_module:
  assumes "getModulePermission db customerId projectId = Inr (Some [])"
    and "fetchNext db ''testing'' (caseListQuery customerId projectId)
           (caseListOptions contToken pageLimit) = Inr r"
  shows "\<exists>page. getCaseList db numberToString customerId projectId contToken pageLimit
           sortArr fltr search searchFields properties = Inr page \<and> result page = []"
  using assms by (simp add: getCaseList_permitted)

lemma getCaseList_no_record:
  assumes "getModulePermission db customerId projectId = Inr None"
    and "fetchNext db ''testing'' (caseListQuery customerId projectId)
           (caseListOptions contToken pageLimit) = Inr r"
    and "resources r \<noteq> []"
  shows "getCaseList db numberToString customerId projectId contToken pageLimit
           sortArr fltr search searchFields properties = Inl TypeError"
  using assms
  by (simp add: getCaseList_def Let_def queryContainerNext_def filter_callback_throws)

lemma getCaseList_pagedDb:
  "getCaseList pagedDb intToString ''customer-1'' ''project-1'' (Some ''page-1'') (Some 2)
     [] [] [] [] [] = Inr secondPage"
  by (simp add: getCaseList_def getModulePermission_def queryContainer_def queryContainerNext_def
      pagedDb_def projectFetchAll_def pagedFetchNext_def secondPage_def)

section \<open>Path resolver\<close>

text \<open>
  Claim C8. For every dotted field path, \<^verbatim>\<open>objectToString\<close> maps each segment of the
  split at the dots to a dot followed by the segment, except the segment \<^verbatim>\<open>value\<close>, which
  becomes the bracket-quoted accessor; the results are concatenated in order with nothing
  between them. In particular \<^verbatim>\<open>a.value.b\<close> resolves to \<^verbatim>\<open>.a["value"].b\<close>.
\<close>

theorem objectToString_segments:
  \<open>objectToString fieldPath =
     concat (map (\<lambda>segment. if segment = ''value'' then ''["value"]'' else ''.'' @ segment)
               (split_chr CHR ''.'' fieldPath))
   \<and> objectToString ''a.value.b'' = ''.a["value"].b''\<close>
proof
  show \<open>objectToString fieldPath =
     concat (map (\<lambda>segment. if segment = ''value'' then ''["value"]'' else ''.'' @ segment)
               (split_chr CHR ''.'' fieldPath))\<close>
    unfolding objectToString_def by (simp only: foldl_append_concat append_Nil)
  show \<open>objectToString ''a.value.b'' = ''.a["value"].b''\<close>
    by (simp add: objectToString_def)
qed

section \<open>Sort clause builder\<close>

text \<open>
  Claim C7. \<^verbatim>\<open>getSort\<close> gives one fragment per sort criterion. The fragment at index 0 with
  direction \<^verbatim>\<open>ASC\<close> or \<^verbatim>\<open>DESC\<close> has the form introducing \<^verbatim>\<open>ORDER BY\<close>, a fragment at a
  later index is the bare term, and a criterion with any other direction gives the empty
  string; \<^verbatim>\<open>getAllOptionsQuery\<close> joins the fragments with a comma and a space.
\<close>

theorem getSort_fragments:
  "length (getSort sortArr) = length sortArr
   \<and> (\<forall>i < length sortArr.
        getSort sortArr ! i =
          (case order (sortArr ! i) of
             ASC \<Rightarrow> (if i = 0 then ''ORDER BY backend.'' @ sort_field (sortArr ! i) @ '' ASC''
                      else ''backend.'' @ sort_field (sortArr ! i) @ '' ASC'')
           | DESC \<Rightarrow> (if i = 0 then ''ORDER BY backend.'' @ sort_field (sortArr ! i) @ '' DESC''
                       else ''backend.'' @ sort_field (sortArr ! i) @ '' DESC'')
           | otherOrder \<Rightarrow> []))
   \<and> sorts (getAllOptionsQuery numberToString sortArr fltr search searchFields properties)
       = join '', '' (getSort sortArr)"
  by (simp add: length_getSort nth_getSort getAllOptionsQuery_def)

theorem getSort_fragments_witness:
  "getSort sampleSort ! 0 = ''ORDER BY backend.createdAt ASC''
   \<and> getSort sampleSort ! 1 = []
   \<and> getSort sampleSort ! 2 = ''backend.reference DESC''
   \<and> sorts (getAllOptionsQuery intToString sampleSort [] [] [] [])
       = ''ORDER BY backend.createdAt ASC, , backend.reference DESC''"
proof -
  have len: "length sampleSort = 3" by (simp add: sampleSort_def)
  note frag = getSort_fragments [of sampleSort intToString "[]" "[]" "[]" "[]"]
  have all: "\<forall>i < length sampleSort.
        getSort sampleSort ! i =
          (case order (sampleSort ! i) of
             ASC \<Rightarrow> (if i = 0 then ''ORDER BY backend.'' @ sort_field (sampleSort ! i) @ '' ASC''
                      else ''backend.'' @ sort_field (sampleSort ! i) @ '' ASC'')
           | DESC \<Rightarrow> (if i = 0 then ''ORDER BY backend.'' @ sort_field (sampleSort ! i) @ '' DESC''
                       else ''backend.'' @ sort_field (sampleSort ! i) @ '' DESC'')
           | otherOrder \<Rightarrow> [])"
    using frag by blast
  have l3: "length (getSort sampleSort) = 3" using frag len by simp
  have f0: "getSort sampleSort ! 0 = ''ORDER BY backend.createdAt ASC''"
    using all [rule_format, of 0] len by (simp add: sampleSort_def)
  have f1: "getSort sampleSort ! 1 = []"
    using all [rule_format, of 1] len by (simp add: sampleSort_def)
  have f2: "getSort sampleSort ! 2 = ''backend.reference DESC''"
    using all [rule_format, of 2] len by (simp add: sampleSort_def)
  have list: "getSort sampleSort = [getSort sampleSort ! 0, getSort sampleSort ! 1, getSort sampleSort ! 2]"
    using l3 by (rule list_of_length_3)
  have "sorts (getAllOptionsQuery intToString sampleSort [] [] [] []) = join '', '' (getSort sampleSort)"
    using frag by blast
  also have "\<dots> = join '', '' [''ORDER BY backend.createdAt ASC'', [], ''backend.reference DESC'']"
    by (subst list) (simp only: f0 f1 f2)
  also have "\<dots> = ''ORDER BY backend.createdAt ASC, , backend.reference DESC''"
    by simp
  finally show ?thesis using f0 f1 f2 by simp
qed

section \<open>Filter clause builder\<close>

text \<open>
  The builder does not look at the first segment of the dotted path but at the text before
  the first dot or space. The first segment of the path \<^verbatim>\<open>documents x\<close> is the whole path,
  which is not a reserved collection name, and the criterion is still compiled to the JOIN
  fragment on \<^verbatim>\<open>documents\<close>.
\<close>

theorem getFilterSql_where_fragment_counterexample:
  "at_index (split_chr CHR ''.'' ''documents x'') 0 = Some ''documents x''
   \<and> getFilterSql intToString
        [\<lparr> field = ''documents x'', condition = equals, val = VString ''v'' \<rparr>]
      = [''JOIN (SELECT VALUE t0 FROM t0 IN backend.documents WHERE t0.x = 'v')'']"
  by (simp add: getFilterSql_def filterFragment_def first_def second_def
      replaced_def enumerate_eq_zip squote_def indexToString.simps)

text \<open>
  Claim C4, amended. For a filter criterion for which the text of the field path before its
  first dot or space is neither \<^verbatim>\<open>documents\<close> nor \<^verbatim>\<open>submissions\<close> and whose value is defined,
  \<^verbatim>\<open>getFilterSql\<close> emits exactly \<^verbatim>\<open>AND backend\<close>, the resolved path, a space, the operator
  symbol, a space and the rendered value: a number or a boolean unquoted, every other value
  between single quotes with its text unchanged. The operator symbol is \<^verbatim>\<open>=\<close>, \<^verbatim>\<open>>\<close> or
  \<^verbatim>\<open><\<close>, and the text \<^verbatim>\<open>undefined\<close> for a condition the encoder does not know.
\<close>

theorem getFilterSql_where_fragment:
  assumes "i < length fs"
    and "takeWhile (\<lambda>c. c \<noteq> CHR ''.'' \<and> c \<noteq> CHR '' '') (field (fs ! i)) \<noteq> ''documents''"
    and "takeWhile (\<lambda>c. c \<noteq> CHR ''.'' \<and> c \<noteq> CHR '' '') (field (fs ! i)) \<noteq> ''submissions''"
    and "val (fs ! i) \<noteq> VUndefined"
  shows "getFilterSql numberToString fs ! i =
           ''AND backend'' @ objectToString (field (fs ! i)) @ '' ''
             @ (case condition (fs ! i) of
                  equals \<Rightarrow> ''=''
                | greaterThan \<Rightarrow> ''>''
                | smallerThan \<Rightarrow> ''<''
                | otherCondition \<Rightarrow> ''undefined'')
             @ '' ''
             @ (case val (fs ! i) of
                  VNumber x \<Rightarrow> numberToString x
                | VBoolean b \<Rightarrow> (if b then ''true'' else ''false'')
                | VString s \<Rightarrow> squote @ s @ squote
                | VUndefined \<Rightarrow> squote @ ''undefined'' @ squote)"
proof -
  have op: "template (filterCondition c) =
      (case c of equals \<Rightarrow> ''='' | greaterThan \<Rightarrow> ''>'' | smallerThan \<Rightarrow> ''<''
       | otherCondition \<Rightarrow> ''undefined'')" for c
    by (cases c) simp_all
  have "first (field (fs ! i)) \<noteq> Some ''documents''"
    and "first (field (fs ! i)) \<noteq> Some ''submissions''"
    using assms(2,3) by (simp_all add: first_takeWhile)
  then show ?thesis
    using assms(1,4) by (simp add: nth_getFilterSql filterFragment_where op)
qed

theorem getFilterSql_where_fragment_witness:
  \<open>getFilterSql intToString sampleFilters ! 1 = ''AND backend.a["value"].b > -12''\<close>
proof -
  have "(1::nat) < length sampleFilters" by (simp add: sampleFilters_def)
  moreover have "takeWhile (\<lambda>c. c \<noteq> CHR ''.'' \<and> c \<noteq> CHR '' '') (field (sampleFilters ! 1))
      \<noteq> ''documents''"
    by (simp add: sampleFilters_def)
  moreover have "takeWhile (\<lambda>c. c \<noteq> CHR ''.'' \<and> c \<noteq> CHR '' '') (field (sampleFilters ! 1))
      \<noteq> ''submissions''"
    by (simp add: sampleFilters_def)
  moreover have "val (sampleFilters ! 1) \<noteq> VUndefined"
    by (simp add: sampleFilters_def)
  ultimately show ?thesis
    using getFilterSql_where_fragment [of 1 sampleFilters intToString]
    by (simp add: sampleFilters_def objectToString_def intToString_def indexToString.simps)
qed

text \<open>
  An unknown condition does not remove the criterion: the encoder returns \<^verbatim>\<open>undefined\<close>, the
  builder still pushes a fragment, and the composer keeps it. And the path
  \<^verbatim>\<open>submissions x\<close>, whose first segment is the whole path, is compiled to the JOIN fragment.
\<close>

theorem filterCondition_unknown_counterexample:
  "filterCondition otherCondition = None
   \<and> getFilterSql intToString
        [\<lparr> field = ''status'', condition = otherCondition, val = VBoolean True \<rparr>]
      = [''AND backend.status undefined true'']
   \<and> filters (getAllOptionsQuery intToString []
        [\<lparr> field = ''status'', condition = otherCondition, val = VBoolean True \<rparr>] [] [] [])
      = ''AND backend.status undefined true''
   \<and> at_index (split_chr CHR ''.'' ''submissions x'') 0 = Some ''submissions x''
   \<and> getFilterSql intToString
        [\<lparr> field = ''submissions x'', condition = otherCondition, val = VBoolean True \<rparr>]
      = [''JOIN (SELECT VALUE t0 FROM t0 IN backend.submissions WHERE t0.x = 'true')'']"
  by (simp add: getAllOptionsQuery_def getFilterSql_def filterFragment_def first_def second_def
      replaced_def enumerate_eq_zip objectToString_def booleanToString_def squote_def
      indexToString.simps)

text \<open>
  Claim C2, amended. For a filter criterion for which the text of the field path before its
  first dot or space is neither \<^verbatim>\<open>documents\<close> nor \<^verbatim>\<open>submissions\<close>, whose value is defined and
  whose condition is none of \<^verbatim>\<open>equals\<close>, \<^verbatim>\<open>greaterThan\<close>, \<^verbatim>\<open>smallerThan\<close>, the condition
  encoder returns \<^verbatim>\<open>undefined\<close>, and the criterion still produces its fragment, with the text
  \<^verbatim>\<open>undefined\<close> in the place of the operator; the fragment list has one fragment per
  criterion.
\<close>

theorem getFilterSql_unknown_condition:
  assumes "i < length fs"
    and "takeWhile (\<lambda>c. c \<noteq> CHR ''.'' \<and> c \<noteq> CHR '' '') (field (fs ! i)) \<noteq> ''documents''"
    and "takeWhile (\<lambda>c. c \<noteq> CHR ''.'' \<and> c \<noteq> CHR '' '') (field (fs ! i)) \<noteq> ''submissions''"
    and "val (fs ! i) \<noteq> VUndefined"
    and "condition (fs ! i) \<noteq> equals"
    and "condition (fs ! i) \<noteq> greaterThan"
    and "condition (fs ! i) \<noteq> smallerThan"
  shows "filterCondition (condition (fs ! i)) = None
         \<and> length (getFilterSql numberToString fs) = length fs
         \<and> getFilterSql numberToString fs ! i =
             ''AND backend'' @ objectToString (field (fs ! i)) @ '' undefined ''
               @ (case val (fs ! i) of
                    VNumber x \<Rightarrow> numberToString x
                  | VBoolean b \<Rightarrow> (if b then ''true'' else ''false'')
                  | VString s \<Rightarrow> squote @ s @ squote
                  | VUndefined \<Rightarrow> squote @ ''undefined'' @ squote)"
proof -
  have none: "filterCondition (condition (fs ! i)) = None"
    using assms(5-7) by (cases "condition (fs ! i)") simp_all
  have fst: "first (field (fs ! i)) \<noteq> Some ''documents''"
    "first (field (fs ! i)) \<noteq> Some ''submissions''"
    using assms(2,3) by (simp_all add: first_takeWhile)
  have "getFilterSql numberToString fs ! i = filterFragment numberToString i (fs ! i)"
    using assms(1) by (rule nth_getFilterSql)
  then show ?thesis
    using fst assms(4) none by (simp add: filterFragment_where length_getFilterSql)
qed

theorem getFilterSql_unknown_condition_witness:
  "filterCondition (condition (sampleFilters ! 2)) = None
   \<and> length (getFilterSql intToString sampleFilters) = 5
   \<and> getFilterSql intToString sampleFilters ! 2 = ''AND backend.status undefined true''"
proof -
  have "(2::nat) < length sampleFilters" by (simp add: sampleFilters_def)
  moreover have "takeWhile (\<lambda>c. c \<noteq> CHR ''.'' \<and> c \<noteq> CHR '' '') (field (sampleFilters ! 2))
      \<noteq> ''documents''"
    by (simp add: sampleFilters_def)
  moreover have "takeWhile (\<lambda>c. c \<noteq> CHR ''.'' \<and> c \<noteq> CHR '' '') (field (sampleFilters ! 2))
      \<noteq> ''submissions''"
    by (simp add: sampleFilters_def)
  moreover have "val (sampleFilters ! 2) \<noteq> VUndefined"
    by (simp add: sampleFilters_def)
  moreover have "condition (sampleFilters ! 2) \<noteq> equals"
    "condition (sampleFilters ! 2) \<noteq> greaterThan" "condition (sampleFilters ! 2) \<noteq> smallerThan"
    by (simp_all add: sampleFilters_def)
  ultimately show ?thesis
    using getFilterSql_unknown_condition [of 2 sampleFilters intToString]
    by (simp add: sampleFilters_def objectToString_def)
qed

text \<open>
  The correlated field of the JOIN fragment is not the second segment of the path: the
  second segment of \<^verbatim>\<open>documents.a.b\<close> is \<^verbatim>\<open>a\<close>, and the fragment compares \<^verbatim>\<open>t0.a.b\<close>.
\<close>

theorem getFilterSql_join_fragment_counterexample:
  "at_index (split_chr CHR ''.'' ''documents.a.b'') 1 = Some ''a''
   \<and> getFilterSql intToString
        [\<lparr> field = ''documents.a.b'', condition = equals, val = VString ''v'' \<rparr>]
      = [''JOIN (SELECT VALUE t0 FROM t0 IN backend.documents WHERE t0.a.b = 'v')'']"
  by (simp add: getFilterSql_def filterFragment_def first_def second_def
      replaced_def enumerate_eq_zip squote_def indexToString.simps)

text \<open>
  Claim C5, amended. For the filter criterion at position \<open>i\<close> whose path is \<^verbatim>\<open>documents\<close> or
  \<^verbatim>\<open>submissions\<close>, a dot and a rest, \<^verbatim>\<open>getFilterSql\<close> emits the correlated-subquery JOIN
  fragment that binds the alias \<^verbatim>\<open>t\<close>\<open>i\<close> to that collection and compares the rest of the
  path, further dots included and cut at its first space, with the value as it is, between
  single quotes and unescaped.
\<close>

theorem getFilterSql_join_fragment:
  assumes "i < length fs"
    and "field (fs ! i) = collection @ CHR ''.'' # rest"
    and "collection = ''documents'' \<or> collection = ''submissions''"
  shows "getFilterSql numberToString fs ! i =
           ''JOIN (SELECT VALUE t'' @ indexToString i @ '' FROM t'' @ indexToString i
             @ '' IN backend.'' @ collection
             @ '' WHERE t'' @ indexToString i @ ''.''
             @ takeWhile (\<lambda>c. c \<noteq> CHR '' '') rest
             @ '' = '' @ squote
             @ (case val (fs ! i) of
                  VString s \<Rightarrow> s
                | VNumber x \<Rightarrow> numberToString x
                | VBoolean b \<Rightarrow> (if b then ''true'' else ''false'')
                | VUndefined \<Rightarrow> ''undefined'')
             @ squote @ '')''"
proof -
  have v: "valueToString numberToString v =
      (case v of VString s \<Rightarrow> s | VNumber x \<Rightarrow> numberToString x
       | VBoolean b \<Rightarrow> (if b then ''true'' else ''false'') | VUndefined \<Rightarrow> ''undefined'')" for v
    by (cases v) (simp_all add: booleanToString_def)
  have "CHR ''.'' \<notin> set collection" and "CHR '' '' \<notin> set collection"
    using assms(3) by auto
  then have seg: "first (field (fs ! i)) = Some collection"
    "second (field (fs ! i)) = Some (takeWhile (\<lambda>c. c \<noteq> CHR '' '') rest)"
    using first_second_dotted [of collection rest] assms(2) by simp_all
  then have "first (field (fs ! i)) = Some ''documents'' \<or> first (field (fs ! i)) = Some ''submissions''"
    using assms(3) by auto
  then have "filterFragment numberToString i (fs ! i) =
           ''JOIN (SELECT VALUE t'' @ indexToString i @ '' FROM t'' @ indexToString i
             @ '' IN backend.'' @ template (first (field (fs ! i)))
             @ '' WHERE t'' @ indexToString i @ ''.'' @ template (second (field (fs ! i)))
             @ '' = '' @ squote @ valueToString numberToString (val (fs ! i)) @ squote @ '')''"
    by (rule filterFragment_join)
  then show ?thesis
    using assms(1) seg by (simp add: nth_getFilterSql v)
qed

theorem getFilterSql_join_fragment_witness:
  "getFilterSql intToString sampleFilters ! 4 =
     ''JOIN (SELECT VALUE t4 FROM t4 IN backend.submissions WHERE t4.meta.state = 'open')''"
proof -
  have "(4::nat) < length sampleFilters" by (simp add: sampleFilters_def)
  moreover have "field (sampleFilters ! 4) = ''submissions'' @ CHR ''.'' # ''meta.state''"
    by (simp add: sampleFilters_def)
  ultimately show ?thesis
    using getFilterSql_join_fragment
      [of 4 sampleFilters "''submissions''" "''meta.state''" intToString]
    by (simp add: sampleFilters_def squote_def indexToString.simps)
qed

text \<open>
  A criterion on \<^verbatim>\<open>documents\<close> without a value is compiled by the first branch: the fragment
  is the JOIN fragment, with the text \<^verbatim>\<open>undefined\<close> as the value, and not the check
  \<^verbatim>\<open>NOT IS_DEFINED\<close>. So is the criterion on the path \<^verbatim>\<open>documents x\<close>, whose first segment is
  the whole path.
\<close>

theorem getFilterSql_absent_value_counterexample:
  "getFilterSql intToString
     [\<lparr> field = ''documents.type'', condition = equals, val = VUndefined \<rparr>]
   = [''JOIN (SELECT VALUE t0 FROM t0 IN backend.documents WHERE t0.type = 'undefined')'']
   \<and> at_index (split_chr CHR ''.'' ''documents x'') 0 = Some ''documents x''
   \<and> getFilterSql intToString
        [\<lparr> field = ''documents x'', condition = equals, val = VUndefined \<rparr>]
      = [''JOIN (SELECT VALUE t0 FROM t0 IN backend.documents WHERE t0.x = 'undefined')'']"
  by (simp add: getFilterSql_def filterFragment_def first_def second_def
      replaced_def enumerate_eq_zip squote_def indexToString.simps)

text \<open>
  Claim C6, amended. For a filter criterion whose value is absent and for which the text of
  the field path before its first dot or space is neither \<^verbatim>\<open>documents\<close> nor
  \<^verbatim>\<open>submissions\<close>, the emitted fragment is exactly \<^verbatim>\<open>AND NOT IS_DEFINED(backend\<close>, the
  resolved path and a closing parenthesis, with no value rendered.
\<close>

theorem getFilterSql_absent_value:
  assumes "i < length fs"
    and "takeWhile (\<lambda>c. c \<noteq> CHR ''.'' \<and> c \<noteq> CHR '' '') (field (fs ! i)) \<noteq> ''documents''"
    and "takeWhile (\<lambda>c. c \<noteq> CHR ''.'' \<and> c \<noteq> CHR '' '') (field (fs ! i)) \<noteq> ''submissions''"
    and "val (fs ! i) = VUndefined"
  shows "getFilterSql numberToString fs ! i =
           ''AND NOT IS_DEFINED(backend'' @ objectToString (field (fs ! i)) @ '')''"
proof -
  have "first (field (fs ! i)) \<noteq> Some ''documents''"
    and "first (field (fs ! i)) \<noteq> Some ''submissions''"
    using assms(2,3) by (simp_all add: first_takeWhile)
  then show ?thesis
    using assms(1,4) by (simp add: nth_getFilterSql filterFragment_not_defined)
qed

theorem getFilterSql_absent_value_witness:
  "getFilterSql intToString sampleFilters ! 3 = ''AND NOT IS_DEFINED(backend.archivedAt)''"
proof -
  have "(3::nat) < length sampleFilters" by (simp add: sampleFilters_def)
  moreover have "takeWhile (\<lambda>c. c \<noteq> CHR ''.'' \<and> c \<noteq> CHR '' '') (field (sampleFilters ! 3))
      \<noteq> ''documents''"
    by (simp add: sampleFilters_def)
  moreover have "takeWhile (\<lambda>c. c \<noteq> CHR ''.'' \<and> c \<noteq> CHR '' '') (field (sampleFilters ! 3))
      \<noteq> ''submissions''"
    by (simp add: sampleFilters_def)
  moreover have "val (sampleFilters ! 3) = VUndefined"
    by (simp add: sampleFilters_def)
  ultimately show ?thesis
    using getFilterSql_absent_value [of 3 sampleFilters intToString]
    by (simp add: sampleFilters_def objectToString_def)
qed

section \<open>Query composer\<close>

text \<open>
  Claim C3. The composer is to drop every fragment that is not a WHERE-style fragment, so
  that no JOIN fragment reaches the joined filter clause. It tests for the text \<^verbatim>\<open>AND\<close>
  anywhere in the fragment, and a JOIN fragment whose value holds that text is kept: for the
  criterion \<^verbatim>\<open>documents.type\<close> with the value \<^verbatim>\<open>ANDERSON\<close> the joined filter clause is the JOIN
  fragment.
\<close>

theorem getAllOptionsQuery_join_fragment_retained:
  "filters (getAllOptionsQuery intToString []
      [\<lparr> field = ''documents.type'', condition = equals, val = VString ''ANDERSON'' \<rparr>] [] [] [])
   = ''JOIN (SELECT VALUE t0 FROM t0 IN backend.documents WHERE t0.type = 'ANDERSON')''"
  by (simp add: getAllOptionsQuery_def getFilterSql_def filterFragment_def first_def second_def
      replaced_def enumerate_eq_zip squote_def indexToString.simps)

section \<open>Permission-gated list service\<close>

text \<open>
  Claim C1. Without a permission record for the key, \<^verbatim>\<open>getCaseList\<close> is to return a page of
  zero rows. The permitted modules are then \<^verbatim>\<open>undefined\<close>, not an empty array, and the filter
  callback throws on the first row of the page: on a store with no record and a page of one
  case the call fails with a \<^verbatim>\<open>TypeError\<close>.
\<close>

theorem getCaseList_no_record_throws:
  "getModulePermission noRecordDb ''customer-1'' ''project-1'' = Inr None
   \<and> getCaseList noRecordDb intToString ''customer-1'' ''project-1'' None None [] [] [] [] []
       = Inl TypeError"
  by (simp add: getCaseList_def getModulePermission_def queryContainer_def queryContainerNext_def
      noRecordDb_def noRecordFetchAll_def onePageFetchNext_def)

text \<open>
  Claim C9. Whenever \<^verbatim>\<open>getCaseList\<close> returns a page, the store has answered the request
  for the fixed query on the container \<^verbatim>\<open>testing\<close> whose options carry the caller's page
  limit and continuation cursor unchanged (10 and the empty cursor when the caller leaves
  them out), and the page carries that answer's \<^verbatim>\<open>hasMoreResults\<close> and
  \<^verbatim>\<open>continuationToken\<close>, with \<^verbatim>\<open>false\<close> and the empty string where the store reports none.
\<close>

theorem getCaseList_pagination:
  assumes "getCaseList db numberToString customerId projectId contToken pageLimit
             sortArr fltr search searchFields properties = Inr page"
  shows "\<exists>r. fetchNext db ''testing'' (caseListQuery customerId projectId)
            \<lparr> maxItemCount = (case pageLimit of None \<Rightarrow> 10 | Some n \<Rightarrow> n),
              opt_continuationToken = (case contToken of None \<Rightarrow> [] | Some t \<Rightarrow> t),
              partitionKey = ''createdAt'' \<rparr> = Inr r
          \<and> hasMoreResults page = (case resp_hasMoreResults r of None \<Rightarrow> False | Some b \<Rightarrow> b)
          \<and> continuationToken page = (case resp_continuationToken r of None \<Rightarrow> [] | Some t \<Rightarrow> t)"
  using assms
  by (auto simp: getCaseList_def Let_def queryContainerNext_def split: sum.splits prod.splits)

theorem getCaseList_pagination_witness:
  "getCaseList pagedDb intToString ''customer-1'' ''project-1'' (Some ''page-1'') (Some 2)
     [] [] [] [] [] = Inr secondPage
   \<and> (\<exists>r. fetchNext pagedDb ''testing'' (caseListQuery ''customer-1'' ''project-1'')
            \<lparr> maxItemCount = 2, opt_continuationToken = ''page-1'',
              partitionKey = ''createdAt'' \<rparr> = Inr r
          \<and> hasMoreResults secondPage = (case resp_hasMoreResults r of None \<Rightarrow> False | Some b \<Rightarrow> b)
          \<and> continuationToken secondPage
              = (case resp_continuationToken r of None \<Rightarrow> [] | Some t \<Rightarrow> t))"
  using getCaseList_pagination [OF getCaseList_pagedDb] getCaseList_pagedDb by simp

text \<open>
  Claim C10. Two calls of \<^verbatim>\<open>getCaseList\<close> on the same store that agree on the customer, the
  project, the continuation cursor and the page limit have the same outcome, whatever their
  sort, filter, search, field-search and projection arguments: the composed clauses are
  computed and not used, and the query sent to the store is the fixed one.
\<close>

theorem getCaseList_ignores_clauses:
  "getCaseList db numberToString customerId projectId contToken pageLimit
     sortArr fltr search searchFields properties
   = getCaseList db numberToString' customerId projectId contToken pageLimit
       sortArr' fltr' search' searchFields' properties'"
  by (simp add: getCaseList_def Let_def cong: sum.case_cong)

end
